theory Spec2Isabelle
  imports Main "HOL-Library.Word"
begin

section \<open>JavaScript values used by the chip components\<close>

text \<open>
  A JavaScript string is a sequence of UTF-16 code units: \<open>length\<close>, \<open>slice\<close>,
  \<open>trim\<close> and \<open>===\<close> all work on code units. The ellipsis U+2026 does not fit an
  8-bit \<^typ>\<open>char\<close>, so a string is a list of 16-bit words here.

  The optional props \<open>maxChips\<close> and \<open>maxTextLength\<close> have the TypeScript type
  \<open>number | undefined\<close>. They are modelled as \<^typ>\<open>int option\<close>: \<open>None\<close> is
  \<open>undefined\<close>, \<open>Some n\<close> an integer-valued number (negative ones included).
  Fractional numbers, NaN and the infinities are outside the model.
\<close>

type_synonym jsstring = "16 word list"

definition utf16 :: "string \<Rightarrow> jsstring" where
  \<comment> \<open>the code units of a string literal of the source (Latin-1 range)\<close>
  "utf16 s = map (\<lambda>c. of_nat (of_char c)) s"

definition truthy :: "int option \<Rightarrow> bool" where
  \<comment> \<open>ToBoolean on \<open>number | undefined\<close>: \<open>undefined\<close> and \<open>0\<close> are falsy\<close>
  "truthy v = (case v of None \<Rightarrow> False | Some n \<Rightarrow> n \<noteq> 0)"

definition nullish :: "int option \<Rightarrow> int \<Rightarrow> int" where
  \<comment> \<open>\<open>v ?? d\<close>: the default is taken only for \<open>undefined\<close>\<close>
  "nullish v d = (case v of None \<Rightarrow> d | Some n \<Rightarrow> n)"

definition Math_min :: "int \<Rightarrow> int \<Rightarrow> int" where
  "Math_min a b = (if b < a then b else a)"

definition Math_max :: "int \<Rightarrow> int \<Rightarrow> int" where
  "Math_max a b = (if a < b then b else a)"

definition relative_index :: "int \<Rightarrow> int \<Rightarrow> int" where
  \<comment> \<open>how \<open>slice\<close> reads an index: a negative one counts from the end, all are clamped\<close>
  "relative_index len i = (if i < 0 then Math_max (len + i) 0 else Math_min i len)"

definition slice_js :: "'a list \<Rightarrow> int \<Rightarrow> int \<Rightarrow> 'a list" where
  \<comment> \<open>\<open>Array.prototype.slice(start, end)\<close> and \<open>String.prototype.slice(start, end)\<close>\<close>
  "slice_js xs start end =
     (let len = int (length xs);
          k = relative_index len start;
          final = relative_index len end
      in take (nat (Math_max (final - k) 0)) (drop (nat k) xs))"

definition isWhiteSpace :: "16 word \<Rightarrow> bool" where
  \<comment> \<open>the code units \<open>String.prototype.trim\<close> strips: WhiteSpace and LineTerminator\<close>
  "isWhiteSpace c =
     (c = 0x0009 \<or> c = 0x000A \<or> c = 0x000B \<or> c = 0x000C \<or> c = 0x000D \<or>
      c = 0x0020 \<or> c = 0x00A0 \<or> c = 0x1680 \<or> (0x2000 \<le> c \<and> c \<le> 0x200A) \<or>
      c = 0x2028 \<or> c = 0x2029 \<or> c = 0x202F \<or> c = 0x205F \<or> c = 0x3000 \<or>
      c = 0xFEFF)"

definition trim :: "jsstring \<Rightarrow> jsstring" where
  "trim s = rev (dropWhile isWhiteSpace (rev (dropWhile isWhiteSpace s)))"

section \<open>The chip components\<close>

record Chip =
  label :: jsstring

definition ELLIPSIS :: jsstring where
  "ELLIPSIS = [0x2026]"

definition displayLabel :: "int option \<Rightarrow> Chip \<Rightarrow> jsstring" where
  \<comment> \<open>the callback given to \<open>sliced.map\<close> inside \<open>visibleChips\<close>;
      \<open>!maxTextLength\<close> holds for \<open>undefined\<close> and for \<open>0\<close>\<close>
  "displayLabel maxTextLength chip =
     (case maxTextLength of
        None \<Rightarrow> label chip
      | Some m \<Rightarrow>
          if \<not> truthy (Some m) \<or> int (length (label chip)) \<le> m
          then label chip
          else slice_js (label chip) 0 m @ ELLIPSIS)"

definition visibleChips :: "Chip list \<Rightarrow> int option \<Rightarrow> int option \<Rightarrow> jsstring list" where
  \<comment> \<open>the \<open>useMemo\<close> body, the same text in every variant of the component\<close>
  "visibleChips chips maxChips maxTextLength =
     (if length chips = 0 then []
      else let sliced = (case maxChips of
                           None \<Rightarrow> chips
                         | Some n \<Rightarrow> if truthy (Some n) then slice_js chips 0 n else chips)
           in map (displayLabel maxTextLength) sliced)"

definition visibleCount :: "Chip list \<Rightarrow> int option \<Rightarrow> int" where
  \<comment> \<open>the initial value of the \<open>visibleCount\<close> state, also what \<open>refreshVisible\<close> sets\<close>
  "visibleCount chips maxChips =
     Math_min (int (length chips)) (nullish maxChips (int (length chips)))"

definition exceeding :: "Chip list \<Rightarrow> int option \<Rightarrow> int" where
  \<comment> \<open>the hidden chips count\<close>
  "exceeding chips maxChips =
     Math_max (int (length chips) - nullish maxChips (int (length chips))) 0"

datatype view =
  Empty_view jsstring
    \<comment> \<open>the section of the theme's class holding only "No chips available"\<close>
| Chips_view jsstring "jsstring list" "int option"
    \<comment> \<open>the section of the theme's class: one \<open>div\<close> per label, keyed by its index,
        and the "n more items" \<open>aside\<close> when there is one\<close>

definition chipSection :: "jsstring \<Rightarrow> Chip list \<Rightarrow> int option \<Rightarrow> int option \<Rightarrow> view" where
  \<comment> \<open>what each variant returns: the early return for no chips, then the list\<close>
  "chipSection theme chips maxChips maxTextLength =
     (let labels = visibleChips chips maxChips maxTextLength
      in if length chips = 0 then Empty_view theme
         else let n = exceeding chips maxChips
              in Chips_view theme labels (if n > 0 then Some n else None))"

text \<open>
  Each variant keeps a module-level \<open>renderCount\<close> that the effect run after a
  render increments (and logs to the console). It is threaded through as state: a
  component takes the counter and returns the section with the new counter.
\<close>

definition ChipList :: "Chip list \<Rightarrow> int option \<Rightarrow> int option \<Rightarrow> nat \<Rightarrow> view \<times> nat" where
  "ChipList chips maxChips maxTextLength renderCount =
     (chipSection (utf16 ''light'') chips maxChips maxTextLength, renderCount + 1)"

definition ChipListMemo :: "Chip list \<Rightarrow> int option \<Rightarrow> int option \<Rightarrow> nat \<Rightarrow> view \<times> nat" where
  "ChipListMemo chips maxChips maxTextLength renderCount =
     (chipSection (utf16 ''light'') chips maxChips maxTextLength, renderCount + 1)"

definition ChipListCusto ::
  "Chip list \<Rightarrow> int option \<Rightarrow> int option \<Rightarrow> jsstring option \<Rightarrow> nat \<Rightarrow> view \<times> nat" where
  \<comment> \<open>the variant with a \<open>theme\<close> prop, whose default is \<open>"light"\<close>\<close>
  "ChipListCusto chips maxChips maxTextLength theme renderCount =
     (chipSection (case theme of None \<Rightarrow> utf16 ''light'' | Some t \<Rightarrow> t)
        chips maxChips maxTextLength,
      renderCount + 1)"

fun viewLabels :: "view \<Rightarrow> jsstring list" where
  "viewLabels (Empty_view _) = []"
| "viewLabels (Chips_view _ labels _) = labels"

fun viewHidden :: "view \<Rightarrow> int" where
  "viewHidden (Empty_view _) = 0"
| "viewHidden (Chips_view _ _ None) = 0"
| "viewHidden (Chips_view _ _ (Some n)) = n"

record ProjectionResult =
  visibleLabels :: "jsstring list"
  hiddenCount :: int

definition project :: "Chip list \<Rightarrow> int option \<Rightarrow> int option \<Rightarrow> ProjectionResult" where
  \<comment> \<open>the two values a variant shows, in the order of its body: the labels of the
      \<open>useMemo\<close>, then the early return for no chips, which shows no "more items"
      and never reaches \<open>exceeding\<close>, then \<open>exceeding\<close>\<close>
  "project chips maxChips maxTextLength =
     (let labels = visibleChips chips maxChips maxTextLength
      in if length chips = 0 then \<lparr>visibleLabels = labels, hiddenCount = 0\<rparr>
         else \<lparr>visibleLabels = labels, hiddenCount = exceeding chips maxChips\<rparr>)"

section \<open>The application\<close>

definition initialSample :: "Chip list" where
  "initialSample =
     [\<lparr>label = utf16 ''ReactJS''\<rparr>,
      \<lparr>label = utf16 ''TypeScript''\<rparr>,
      \<lparr>label = utf16 ''PerformanceOptimization''\<rparr>,
      \<lparr>label = utf16 ''Memoization''\<rparr>,
      \<lparr>label = utf16 ''HooksMastery''\<rparr>]"

definition handleAddChip :: "Chip list \<Rightarrow> jsstring \<Rightarrow> Chip list \<times> jsstring" where
  \<comment> \<open>the click handler, on the two state cells it reads and sets:
      the chip list and the text of the input field\<close>
  "handleAddChip chips inputValue =
     (let trimmed = trim inputValue
      in if trimmed \<noteq> [] \<and> \<not> list_ex (\<lambda>chip. label chip = trimmed) chips
         then (chips @ [\<lparr>label = trimmed\<rparr>], [])
         else (chips, inputValue))"

definition addChip :: "Chip list \<Rightarrow> jsstring \<Rightarrow> Chip list" where
  \<comment> \<open>the chip list after the handler has run\<close>
  "addChip existing candidateText = fst (handleAddChip existing candidateText)"

section \<open>Properties\<close>

subsection \<open>Slicing and the display string\<close>

lemma slice_from_start:
  "slice_js xs 0 n = take (if n < 0 then length xs - nat (- n) else nat n) xs"
proof (cases "n < 0")
  case True
  have "nat (Math_max (int (length xs) + n) 0) = length xs - nat (- n)"
    using True by (simp add: Math_max_def) arith
  then show ?thesis
    using True by (simp add: slice_js_def relative_index_def Let_def Math_min_def Math_max_def)
next
  case False
  have "take (nat (Math_min n (int (length xs)))) xs = take (nat n) xs"
    using False by (simp add: Math_min_def)
  then show ?thesis
    using False by (simp add: slice_js_def relative_index_def Let_def Math_min_def Math_max_def)
qed

lemma displayLabel_absent: "displayLabel None chip = label chip"
  by (simp add: displayLabel_def)

lemma displayLabel_nonneg:
  "0 \<le> m \<Longrightarrow> displayLabel (Some m) chip =
     (if m = 0 \<or> int (length (label chip)) \<le> m then label chip
      else take (nat m) (label chip) @ [0x2026])"
  by (simp add: displayLabel_def truthy_def slice_from_start ELLIPSIS_def)

lemma displayLabel_neg:
  "m < 0 \<Longrightarrow> displayLabel (Some m) chip = take (length (label chip) - nat (- m)) (label chip) @ [0x2026]"
  by (simp add: displayLabel_def truthy_def slice_from_start ELLIPSIS_def)

lemma visibleChips_take:
  "visibleChips chips maxChips maxTextLength =
     map (displayLabel maxTextLength)
       (take (case maxChips of None \<Rightarrow> length chips
              | Some n \<Rightarrow> if n = 0 then length chips
                         else if n < 0 then length chips - nat (- n) else nat n) chips)"
  by (auto simp: visibleChips_def truthy_def slice_from_start Let_def split: option.splits)

lemma visibleChips_length_le: "length (visibleChips chips maxChips maxTextLength) \<le> length chips"
  by (simp add: visibleChips_take)

lemma visibleChips_nth:
  assumes "i < length (visibleChips chips maxChips maxTextLength)"
  shows "visibleChips chips maxChips maxTextLength ! i = displayLabel maxTextLength (chips ! i)"
  using assms by (simp add: visibleChips_take)

lemma exceeding_eq:
  "exceeding chips maxChips =
     max 0 (int (length chips) - (case maxChips of None \<Rightarrow> int (length chips) | Some n \<Rightarrow> n))"
  by (simp add: exceeding_def Math_max_def nullish_def max_def split: option.splits)

lemma visibleChips_length_capped:
  "maxChips = None \<or> (\<exists>n. maxChips = Some n \<and> 0 < n) \<Longrightarrow>
   int (length (visibleChips chips maxChips maxTextLength)) =
     min (int (length chips)) (case maxChips of None \<Rightarrow> int (length chips) | Some n \<Rightarrow> n)"
  by (auto simp: visibleChips_take)

lemma exceeding_nonneg: "0 \<le> exceeding chips maxChips"
  by (simp add: exceeding_eq)

lemma project_labels:
  "visibleLabels (project chips maxChips maxTextLength) = visibleChips chips maxChips maxTextLength"
  by (simp add: project_def Let_def)

lemma project_hidden:
  "hiddenCount (project chips maxChips maxTextLength) =
     (if chips = [] then 0 else exceeding chips maxChips)"
  by (simp add: project_def Let_def)

lemma project_empty:
  "project [] maxChips maxTextLength = \<lparr>visibleLabels = [], hiddenCount = 0\<rparr>"
  by (simp add: project_def Let_def visibleChips_def)

lemma chipSection_labels:
  "viewLabels (chipSection t chips maxChips maxTextLength) =
     visibleLabels (project chips maxChips maxTextLength)"
  by (simp add: chipSection_def Let_def visibleChips_def project_labels)

lemma chipSection_hidden:
  "viewHidden (chipSection t chips maxChips maxTextLength) =
     hiddenCount (project chips maxChips maxTextLength)"
proof (cases "chips = []")
  case True
  then show ?thesis
    by (simp add: chipSection_def Let_def project_hidden)
next
  case False
  then show ?thesis
    using exceeding_nonneg [of chips maxChips]
    by (cases "0 < exceeding chips maxChips")
      (simp_all add: chipSection_def Let_def project_hidden)
qed

lemma displayLabel_explicit:
  assumes "case maxTextLength of None \<Rightarrow> True | Some m \<Rightarrow> 0 \<le> m"
  shows "displayLabel maxTextLength =
    (\<lambda>chip. case maxTextLength of
        None \<Rightarrow> label chip
      | Some m \<Rightarrow>
          if m = 0 \<or> int (length (label chip)) \<le> m then label chip
          else take (nat m) (label chip) @ [0x2026])"
proof (cases maxTextLength)
  case None
  then show ?thesis
    by (simp add: displayLabel_absent fun_eq_iff)
next
  case (Some m)
  with assms have "0 \<le> m"
    by simp
  with Some show ?thesis
    by (simp add: displayLabel_nonneg fun_eq_iff)
qed

subsection \<open>The number of visible chips\<close>

text \<open>
  Claim C1: the number of visible labels is
  \<open>min (length chips) (maxChips ?? length chips)\<close>, so none is visible when
  \<open>maxChips = 0\<close>. The \<open>useMemo\<close> body tests \<open>maxChips\<close> for truthiness, and
  \<open>0\<close> is falsy: with one chip and \<open>maxChips = 0\<close> it returns that chip, while the
  \<open>visibleCount\<close> state of the same component is \<open>0\<close> and \<open>exceeding\<close> is \<open>1\<close>.
  For an absent or positive \<open>maxChips\<close> the length is as claimed
  (\<open>visibleChips_length_capped\<close>).
\<close>

theorem maxChips_zero_shows_every_chip:
  "length (visibleLabels (project [\<lparr>label = utf16 ''A''\<rparr>] (Some 0) None)) = 1
   \<and> min (int (length [\<lparr>label = utf16 ''A''\<rparr>])) (nullish (Some 0) (int (length [\<lparr>label = utf16 ''A''\<rparr>]))) = 0
   \<and> visibleCount [\<lparr>label = utf16 ''A''\<rparr>] (Some 0) = 0
   \<and> hiddenCount (project [\<lparr>label = utf16 ''A''\<rparr>] (Some 0) None) = 1"
  by code_simp

subsection \<open>Truncation\<close>

text \<open>
  Claim C2, as stated, at \<open>maxTextLength = 0\<close>: the label \<open>"A"\<close> is longer than
  \<open>0\<close>, so its display string would be the ellipsis alone. The callback tests
  \<open>!maxTextLength\<close> first, which holds for \<open>0\<close>, and returns the label unchanged.
\<close>

theorem truncation_zero_counterexample:
  "\<not> int (length (utf16 ''A'')) \<le> 0
   \<and> visibleChips [\<lparr>label = utf16 ''A''\<rparr>] None (Some 0) = [utf16 ''A'']
   \<and> visibleChips [\<lparr>label = utf16 ''A''\<rparr>] None (Some 0) \<noteq> [take 0 (utf16 ''A'') @ [0x2026]]"
  by code_simp

text \<open>
  Claim C2, amended: the display string at position \<open>i\<close> comes from the chip at
  position \<open>i\<close>. It is the label unchanged when \<open>maxTextLength\<close> is absent, is
  \<open>0\<close>, or is at least the label's length. When \<open>maxTextLength\<close> is positive and
  less than the label's length it is the first \<open>maxTextLength\<close> code units followed
  by the one code unit U+2026, so its length is \<open>maxTextLength + 1\<close>.
\<close>

theorem truncation_law:
  assumes "i < length (visibleChips chips maxChips maxTextLength)"
  shows "i < length chips \<and>
    (case maxTextLength of
       None \<Rightarrow> visibleChips chips maxChips maxTextLength ! i = label (chips ! i)
     | Some m \<Rightarrow>
         (m = 0 \<or> int (length (label (chips ! i))) \<le> m \<longrightarrow>
            visibleChips chips maxChips maxTextLength ! i = label (chips ! i)) \<and>
         (0 < m \<and> m < int (length (label (chips ! i))) \<longrightarrow>
            visibleChips chips maxChips maxTextLength ! i = take (nat m) (label (chips ! i)) @ [0x2026]
            \<and> int (length (visibleChips chips maxChips maxTextLength ! i)) = m + 1
            \<and> last (visibleChips chips maxChips maxTextLength ! i) = 0x2026))"
proof -
  have le: "i < length chips"
    using assms visibleChips_length_le [of chips maxChips maxTextLength] by simp
  have nth: "visibleChips chips maxChips maxTextLength ! i = displayLabel maxTextLength (chips ! i)"
    using assms by (rule visibleChips_nth)
  show ?thesis
  proof (cases maxTextLength)
    case None
    with le nth show ?thesis by (simp add: displayLabel_absent)
  next
    case (Some m)
    show ?thesis
    proof (cases "0 \<le> m")
      case True
      with le nth Some show ?thesis by (auto simp: displayLabel_nonneg)
    next
      case False
      with le nth Some show ?thesis by simp
    qed
  qed
qed


theorem truncation_law_witness:
  "2 < length (visibleChips initialSample (Some 3) (Some 10))
   \<and> visibleChips initialSample (Some 3) (Some 10) ! 2 = utf16 ''Performanc'' @ [0x2026]
   \<and> int (length (visibleChips initialSample (Some 3) (Some 10) ! 2)) = 11"
proof -
  have h: "2 < length (visibleChips initialSample (Some 3) (Some 10))"
    by code_simp
  have l: "(0::int) < 10 \<and> 10 < int (length (label (initialSample ! 2)))"
    by code_simp
  have t: "take (nat 10) (label (initialSample ! 2)) = utf16 ''Performanc''"
    by code_simp
  have n: "length (utf16 ''Performanc'') = 10"
    by (simp add: utf16_def)
  from truncation_law [OF h] l t n show ?thesis
    using h by simp
qed

subsection \<open>The hidden count\<close>

text \<open>
  Claim C3: the hidden count is \<open>max 0 (length chips - (maxChips ?? length chips))\<close>
  for every input, and so is never negative. An input has at least one chip, or a
  \<open>maxChips\<close> that is absent or not negative, as the input type of the projection
  requires: with no chip the components return before \<open>exceeding\<close> and show nothing
  hidden, which is the value of the formula for those limits only. The "more items"
  aside of every variant shows the hidden count of \<open>project\<close>.
\<close>

theorem hiddenCount_formula:
  assumes "chips \<noteq> [] \<or> (case maxChips of None \<Rightarrow> True | Some n \<Rightarrow> 0 \<le> n)"
  shows "hiddenCount (project chips maxChips maxTextLength) =
       max 0 (int (length chips) - (case maxChips of None \<Rightarrow> int (length chips) | Some n \<Rightarrow> n))
     \<and> 0 \<le> hiddenCount (project chips maxChips maxTextLength)
     \<and> viewHidden (fst (ChipList chips maxChips maxTextLength renderCount)) =
         hiddenCount (project chips maxChips maxTextLength)
     \<and> viewHidden (fst (ChipListMemo chips maxChips maxTextLength renderCount)) =
         hiddenCount (project chips maxChips maxTextLength)
     \<and> viewHidden (fst (ChipListCusto chips maxChips maxTextLength theme renderCount)) =
         hiddenCount (project chips maxChips maxTextLength)"
proof -
  have f: "hiddenCount (project chips maxChips maxTextLength) =
      max 0 (int (length chips) - (case maxChips of None \<Rightarrow> int (length chips) | Some n \<Rightarrow> n))"
  proof (cases "chips = []")
    case True
    with assms have "case maxChips of None \<Rightarrow> True | Some n \<Rightarrow> 0 \<le> n"
      by simp
    with True show ?thesis
      by (simp add: project_hidden split: option.splits)
  next
    case False
    then show ?thesis
      by (simp add: project_hidden exceeding_eq)
  qed
  have n: "0 \<le> hiddenCount (project chips maxChips maxTextLength)"
    by (simp add: project_hidden exceeding_nonneg)
  show ?thesis
    using f n by (simp add: ChipList_def ChipListMemo_def ChipListCusto_def chipSection_hidden)
qed

theorem hiddenCount_formula_witness:
  "initialSample \<noteq> []
   \<and> hiddenCount (project initialSample (Some 3) (Some 10)) = 2
   \<and> viewHidden (fst (ChipList initialSample (Some 3) (Some 10) 0)) = 2
   \<and> viewHidden (fst (ChipListMemo initialSample (Some 3) (Some 10) 0)) = 2
   \<and> viewHidden (fst (ChipListCusto initialSample (Some 3) (Some 10) None 0)) = 2
   \<and> hiddenCount (project [] (Some 3) (Some 10)) = 0
   \<and> hiddenCount (project initialSample (Some (- 1)) (Some 10)) = 6"
proof -
  have h: "initialSample \<noteq> []"
    by (simp add: initialSample_def)
  have n: "int (length initialSample) = 5"
    by (simp add: initialSample_def)
  from hiddenCount_formula [of initialSample "Some 3" "Some 10" 0 None]
    hiddenCount_formula [of "[]" "Some 3" "Some 10" 0 None]
    hiddenCount_formula [of initialSample "Some (- 1)" "Some 10" 0 None] h n
  show ?thesis by simp
qed

subsection \<open>The sample of the application\<close>

text \<open>
  Claim C4, as stated: on the five sample chips with \<open>maxChips = 3\<close> and
  \<open>maxTextLength = 10\<close> the third visible label would be \<open>"Performan\<dots>"\<close>, nine
  letters and the ellipsis. The code does not return that list.
\<close>

theorem scenario_A_counterexample:
  "visibleLabels (project initialSample (Some 3) (Some 10)) \<noteq>
     [utf16 ''ReactJS'', utf16 ''TypeScript'', utf16 ''Performan'' @ [0x2026]]"
  by code_simp

text \<open>
  Claim C4, amended: the third label keeps its first ten code units,
  \<open>"Performanc"\<close>, before the ellipsis; the other two labels, of lengths 7 and 10,
  are unchanged and two chips are hidden.
\<close>

theorem scenario_A:
  "project initialSample (Some 3) (Some 10) =
     \<lparr>visibleLabels = [utf16 ''ReactJS'', utf16 ''TypeScript'', utf16 ''Performanc'' @ [0x2026]],
      hiddenCount = 2\<rparr>"
  by code_simp

subsection \<open>Order\<close>

text \<open>
  Claim C5, as stated: the visible labels are the truncated texts of the first \<open>k\<close>
  chips, \<open>k\<close> the number of visible labels, where a label longer than
  \<open>maxTextLength\<close> is cut to its first \<open>maxTextLength\<close> characters and the
  ellipsis. At \<open>maxTextLength = 0\<close> the one label \<open>"A"\<close> is longer than the limit,
  and the code shows it unchanged, not cut.
\<close>

theorem order_truncation_counterexample:
  "length (visibleChips [\<lparr>label = utf16 ''A''\<rparr>] None (Some 0)) = 1
   \<and> \<not> int (length (label \<lparr>label = utf16 ''A''\<rparr>)) \<le> 0
   \<and> visibleChips [\<lparr>label = utf16 ''A''\<rparr>] None (Some 0) \<noteq>
       map (\<lambda>chip. take (nat 0) (label chip) @ [0x2026]) (take 1 [\<lparr>label = utf16 ''A''\<rparr>])"
  by code_simp

text \<open>
  Claim C5, amended: for a \<open>maxTextLength\<close> that is absent or not negative, and any
  \<open>maxChips\<close>, the visible labels are, in the order of the input, the display
  strings of the first \<open>k\<close> chips, \<open>k\<close> the number of visible labels and at most
  the number of chips. The display string of a chip is its label when
  \<open>maxTextLength\<close> is absent, is \<open>0\<close> or is at least the label's length, and
  otherwise the first \<open>maxTextLength\<close> code units of the label followed by U+2026.
\<close>

theorem order_preserved:
  assumes "case maxTextLength of None \<Rightarrow> True | Some m \<Rightarrow> 0 \<le> m"
  shows "length (visibleChips chips maxChips maxTextLength) \<le> length chips
     \<and> visibleChips chips maxChips maxTextLength =
         map (\<lambda>chip. case maxTextLength of
                 None \<Rightarrow> label chip
               | Some m \<Rightarrow>
                   if m = 0 \<or> int (length (label chip)) \<le> m then label chip
                   else take (nat m) (label chip) @ [0x2026])
           (take (length (visibleChips chips maxChips maxTextLength)) chips)"
proof -
  have k: "length (visibleChips chips maxChips maxTextLength) \<le> length chips"
    by (rule visibleChips_length_le)
  have "visibleChips chips maxChips maxTextLength =
      map (displayLabel maxTextLength)
        (take (length (visibleChips chips maxChips maxTextLength)) chips)"
    by (simp add: visibleChips_take min_def)
  then show ?thesis
    using k by (simp only: displayLabel_explicit [OF assms] simp_thms)
qed

theorem order_preserved_witness:
  "visibleChips initialSample (Some 3) (Some 10) =
     [utf16 ''ReactJS'', utf16 ''TypeScript'', utf16 ''Performanc'' @ [0x2026]]
   \<and> visibleChips initialSample (Some 3) (Some 10) =
     [label (initialSample ! 0), label (initialSample ! 1),
      take 10 (label (initialSample ! 2)) @ [0x2026]]"
proof -
  have h: "case Some (10::int) of None \<Rightarrow> True | Some m \<Rightarrow> 0 \<le> m"
    by simp
  have k: "length (visibleChips initialSample (Some 3) (Some 10)) = 3"
    by code_simp
  have e: "map (\<lambda>chip. case Some (10::int) of
                 None \<Rightarrow> label chip
               | Some m \<Rightarrow>
                   if m = 0 \<or> int (length (label chip)) \<le> m then label chip
                   else take (nat m) (label chip) @ [0x2026])
           (take 3 initialSample) =
      [utf16 ''ReactJS'', utf16 ''TypeScript'', utf16 ''Performanc'' @ [0x2026]]"
    by code_simp
  have i: "[label (initialSample ! 0), label (initialSample ! 1),
      take 10 (label (initialSample ! 2)) @ [0x2026]] =
      [utf16 ''ReactJS'', utf16 ''TypeScript'', utf16 ''Performanc'' @ [0x2026]]"
    by code_simp
  from order_preserved [OF h, of initialSample "Some 3"] k e i show ?thesis
    by simp
qed

subsection \<open>Negative limits\<close>

text \<open>
  Claim C6, as stated: a negative limit is rejected or gives the result of the limit
  \<open>0\<close>. No path of the components throws, so every call returns a value, and that
  value differs from the one for \<open>0\<close>: \<open>slice\<close> counts a negative end from the end
  of the array or string, and \<open>exceeding\<close> subtracts the negative number.
\<close>

theorem negative_limit_counterexample:
  "project [\<lparr>label = utf16 ''AB''\<rparr>, \<lparr>label = utf16 ''CD''\<rparr>, \<lparr>label = utf16 ''EF''\<rparr>] (Some (- 1)) None
     = \<lparr>visibleLabels = [utf16 ''AB'', utf16 ''CD''], hiddenCount = 4\<rparr>
   \<and> project [\<lparr>label = utf16 ''AB''\<rparr>, \<lparr>label = utf16 ''CD''\<rparr>, \<lparr>label = utf16 ''EF''\<rparr>] (Some 0) None
     = \<lparr>visibleLabels = [utf16 ''AB'', utf16 ''CD'', utf16 ''EF''], hiddenCount = 3\<rparr>
   \<and> project [\<lparr>label = utf16 ''AB''\<rparr>, \<lparr>label = utf16 ''CD''\<rparr>, \<lparr>label = utf16 ''EF''\<rparr>] (Some (- 1)) None
     \<noteq> project [\<lparr>label = utf16 ''AB''\<rparr>, \<lparr>label = utf16 ''CD''\<rparr>, \<lparr>label = utf16 ''EF''\<rparr>] (Some 0) None
   \<and> visibleChips [\<lparr>label = utf16 ''AB''\<rparr>] None (Some (- 1)) = [utf16 ''A'' @ [0x2026]]
   \<and> visibleChips [\<lparr>label = utf16 ''AB''\<rparr>] None (Some 0) = [utf16 ''AB'']
   \<and> visibleChips [\<lparr>label = utf16 ''AB''\<rparr>] None (Some (- 1))
     \<noteq> visibleChips [\<lparr>label = utf16 ''AB''\<rparr>] None (Some 0)"
  by code_simp

text \<open>
  Claim C6, amended: with \<open>maxChips = n < 0\<close> the visible labels come from all but
  the last \<open>-n\<close> chips, and for at least one chip the hidden count is
  \<open>length chips - n\<close>; with no chip the components return before \<open>exceeding\<close>, so
  there is no label and nothing hidden. With \<open>maxTextLength = n < 0\<close> every display
  string is the label without its last \<open>-n\<close> code units, followed by the ellipsis.
\<close>

theorem negative_limits:
  assumes "n < 0"
  shows "visibleLabels (project chips (Some n) maxTextLength) =
           map (displayLabel maxTextLength) (take (length chips - nat (- n)) chips)
         \<and> (chips \<noteq> [] \<longrightarrow>
              hiddenCount (project chips (Some n) maxTextLength) = int (length chips) - n)
         \<and> project [] (Some n) maxTextLength = \<lparr>visibleLabels = [], hiddenCount = 0\<rparr>
         \<and> displayLabel (Some n) chip =
             take (length (label chip) - nat (- n)) (label chip) @ [0x2026]"
  using assms
  by (simp add: project_labels project_hidden project_empty visibleChips_take exceeding_eq
      displayLabel_neg)

theorem negative_limits_witness:
  "(- 1 :: int) < 0
   \<and> initialSample \<noteq> []
   \<and> visibleLabels (project initialSample (Some (- 1)) None) =
       map (displayLabel None) (take 4 initialSample)
   \<and> hiddenCount (project initialSample (Some (- 1)) None) = 6
   \<and> displayLabel (Some (- 1)) \<lparr>label = utf16 ''AB''\<rparr> = utf16 ''A'' @ [0x2026]"
proof -
  have h: "(- 1 :: int) < 0"
    by simp
  have n: "length initialSample = 5"
    by (simp add: initialSample_def)
  have e: "initialSample \<noteq> []"
    by (simp add: initialSample_def)
  from negative_limits [OF h, of initialSample None "\<lparr>label = utf16 ''AB''\<rparr>"] n e
  show ?thesis by (simp add: utf16_def)
qed

subsection \<open>Adding a chip\<close>

text \<open>
  \<open>trim\<close> removes white space at both ends and nothing else.
\<close>

lemma trim_decomposition:
  "\<exists>a b. s = a @ trim s @ b \<and> list_all isWhiteSpace a \<and> list_all isWhiteSpace b"
proof -
  define a where "a = takeWhile isWhiteSpace s"
  define u where "u = dropWhile isWhiteSpace s"
  define b where "b = rev (takeWhile isWhiteSpace (rev u))"
  have s: "s = a @ u"
    by (simp add: a_def u_def)
  have "rev (takeWhile isWhiteSpace (rev u) @ dropWhile isWhiteSpace (rev u)) = u"
    by (simp only: takeWhile_dropWhile_id rev_rev_ident)
  then have "rev (dropWhile isWhiteSpace (rev u)) @ rev (takeWhile isWhiteSpace (rev u)) = u"
    by (simp only: rev_append)
  then have u: "u = trim s @ b"
    by (simp add: trim_def u_def b_def)
  have wa: "list_all isWhiteSpace a"
    unfolding a_def list_all_iff by (auto dest: set_takeWhileD)
  have wb: "list_all isWhiteSpace b"
    unfolding b_def list_all_iff by (auto dest: set_takeWhileD)
  from s u wa wb show ?thesis by blast
qed

lemma trim_borders:
  "trim s = [] \<or> (\<not> isWhiteSpace (hd (trim s)) \<and> \<not> isWhiteSpace (last (trim s)))"
proof (cases "trim s = []")
  case True
  then show ?thesis by simp
next
  case False
  define u where "u = dropWhile isWhiteSpace s"
  define v where "v = dropWhile isWhiteSpace (rev u)"
  have t: "trim s = rev v"
    by (simp add: trim_def u_def v_def)
  with False have v: "v \<noteq> []"
    by simp
  then have hv: "\<not> isWhiteSpace (hd v)"
    unfolding v_def by (metis hd_dropWhile)
  have lastt: "last (trim s) = hd v"
    using v t by (simp add: last_rev)
  obtain w where w: "rev u = w @ v"
    unfolding v_def by (metis takeWhile_dropWhile_id)
  then have u: "u = rev v @ rev w"
    by (metis rev_append rev_rev_ident)
  have "u \<noteq> []"
    using u v by simp
  then have "\<not> isWhiteSpace (hd u)"
    unfolding u_def by (metis hd_dropWhile)
  moreover have "hd u = hd (rev v)"
    using u v by simp
  ultimately show ?thesis
    using t lastt hv by simp
qed

text \<open>
  Claim C7: the handler trims the candidate text; the list stays as it is when the
  trimmed text is empty or is the label of an existing chip (compared code unit by
  code unit, so case matters), and otherwise grows by one chip at its end, labelled
  with the trimmed text.
\<close>

theorem addChip_rule:
  "addChip existing candidateText =
     (if trim candidateText = [] \<or> (\<exists>r \<in> set existing. label r = trim candidateText)
      then existing
      else existing @ [\<lparr>label = trim candidateText\<rparr>])"
  by (simp add: addChip_def handleAddChip_def Let_def list_ex_iff)

theorem addChip_rule_witness:
  "addChip [\<lparr>label = utf16 ''A''\<rparr>] (utf16 ''  A  '') = [\<lparr>label = utf16 ''A''\<rparr>]
   \<and> addChip [\<lparr>label = utf16 ''A''\<rparr>] (utf16 ''B'') = [\<lparr>label = utf16 ''A''\<rparr>, \<lparr>label = utf16 ''B''\<rparr>]
   \<and> addChip [\<lparr>label = utf16 ''A''\<rparr>] (utf16 ''a'') = [\<lparr>label = utf16 ''A''\<rparr>, \<lparr>label = utf16 ''a''\<rparr>]
   \<and> addChip [\<lparr>label = utf16 ''A''\<rparr>] (utf16 ''   '') = [\<lparr>label = utf16 ''A''\<rparr>]"
proof -
  have t: "trim (utf16 ''  A  '') = utf16 ''A''" "trim (utf16 ''B'') = utf16 ''B''"
    "trim (utf16 ''a'') = utf16 ''a''" "trim (utf16 ''   '') = []"
    by code_simp+
  have d: "utf16 ''A'' \<noteq> utf16 ''B''" "utf16 ''A'' \<noteq> utf16 ''a''" "utf16 ''A'' \<noteq> []"
    "utf16 ''B'' \<noteq> []" "utf16 ''a'' \<noteq> []"
    by code_simp+
  show ?thesis
    using addChip_rule [of "[\<lparr>label = utf16 ''A''\<rparr>]" "utf16 ''  A  ''"]
      addChip_rule [of "[\<lparr>label = utf16 ''A''\<rparr>]" "utf16 ''B''"]
      addChip_rule [of "[\<lparr>label = utf16 ''A''\<rparr>]" "utf16 ''a''"]
      addChip_rule [of "[\<lparr>label = utf16 ''A''\<rparr>]" "utf16 ''   ''"]
      t d by simp
qed

subsection \<open>No chips\<close>

text \<open>
  Claim C8: for the empty chip list there is no visible label and the hidden count
  is \<open>0\<close>, and the caller can tell this case from the other: the components return
  the "No chips available" section exactly when the list is empty. This holds for
  every value of the two limits.
\<close>

theorem empty_chips:
  "visibleChips [] maxChips maxTextLength = []
   \<and> fst (ChipList [] maxChips maxTextLength renderCount) = Empty_view (utf16 ''light'')
   \<and> fst (ChipListMemo [] maxChips maxTextLength renderCount) = Empty_view (utf16 ''light'')
   \<and> viewLabels (fst (ChipList [] maxChips maxTextLength renderCount)) = []
   \<and> viewHidden (fst (ChipList [] maxChips maxTextLength renderCount)) = 0
   \<and> (chips \<noteq> [] \<longrightarrow>
        (\<forall>t. fst (ChipList chips maxChips maxTextLength renderCount) \<noteq> Empty_view t)
        \<and> (\<forall>t. fst (ChipListMemo chips maxChips maxTextLength renderCount) \<noteq> Empty_view t))
   \<and> project [] maxChips maxTextLength = \<lparr>visibleLabels = [], hiddenCount = 0\<rparr>"
  by (simp add: visibleChips_def ChipList_def ChipListMemo_def chipSection_def Let_def
      project_empty)

theorem empty_chips_witness:
  "project [] (Some 3) (Some 10) = \<lparr>visibleLabels = [], hiddenCount = 0\<rparr>
   \<and> fst (ChipList [] (Some 3) (Some 10) 0) = Empty_view (utf16 ''light'')
   \<and> fst (ChipList initialSample (Some 3) (Some 10) 0) \<noteq> Empty_view (utf16 ''light'')"
proof -
  have h: "initialSample \<noteq> []"
    by (simp add: initialSample_def)
  from empty_chips [of "Some 3" "Some 10" 0 initialSample] h show ?thesis
    by simp
qed

subsection \<open>The theme and the render counter\<close>

text \<open>
  Claim C9: the theme changes the class of the section only, not the labels or the
  hidden count, and two renders of the same props give the same section whatever the
  module-level render counter holds.
\<close>

theorem theme_noninterference:
  "viewLabels (fst (ChipListCusto chips maxChips maxTextLength theme1 count1)) =
     viewLabels (fst (ChipListCusto chips maxChips maxTextLength theme2 count2))
   \<and> viewHidden (fst (ChipListCusto chips maxChips maxTextLength theme1 count1)) =
     viewHidden (fst (ChipListCusto chips maxChips maxTextLength theme2 count2))
   \<and> fst (ChipListCusto chips maxChips maxTextLength theme1 count1) =
     fst (ChipListCusto chips maxChips maxTextLength theme1 count2)
   \<and> viewLabels (fst (ChipListCusto chips maxChips maxTextLength theme1 count1)) =
     visibleLabels (project chips maxChips maxTextLength)"
proof -
  have l: "viewLabels (chipSection t chips maxChips maxTextLength) =
      visibleChips chips maxChips maxTextLength" for t
    by (simp add: chipSection_def Let_def visibleChips_def)
  have h: "viewHidden (chipSection t chips maxChips maxTextLength) =
      viewHidden (chipSection t' chips maxChips maxTextLength)" for t t'
    by (simp add: chipSection_def Let_def)
  show ?thesis
    using h by (simp add: ChipListCusto_def l project_labels)
qed

theorem theme_noninterference_witness:
  "viewLabels (fst (ChipListCusto initialSample (Some 3) (Some 10) (Some (utf16 ''dark'')) 0)) =
     viewLabels (fst (ChipListCusto initialSample (Some 3) (Some 10) None 7))
   \<and> viewHidden (fst (ChipListCusto initialSample (Some 3) (Some 10) (Some (utf16 ''dark'')) 0)) =
     viewHidden (fst (ChipListCusto initialSample (Some 3) (Some 10) None 7))
   \<and> fst (ChipListCusto initialSample (Some 3) (Some 10) (Some (utf16 ''dark'')) 0) \<noteq>
     fst (ChipListCusto initialSample (Some 3) (Some 10) None 7)"
proof -
  have d: "fst (ChipListCusto initialSample (Some 3) (Some 10) (Some (utf16 ''dark'')) 0) \<noteq>
     fst (ChipListCusto initialSample (Some 3) (Some 10) None 7)"
    by code_simp
  from theme_noninterference
    [of initialSample "Some 3" "Some 10" "Some (utf16 ''dark'')" 0 None 7] d
  show ?thesis by blast
qed

subsection \<open>Limits equal to zero\<close>

text \<open>
  Claim C10: with \<open>maxChips = 0\<close> and at least one chip the visible labels are the
  display strings of all chips while the hidden count is the number of chips, so
  both together count every chip twice; with \<open>maxTextLength = 0\<close> every display
  string is its label unchanged.
\<close>

theorem zero_limits:
  "(chips \<noteq> [] \<longrightarrow>
      visibleLabels (project chips (Some 0) maxTextLength) = map (displayLabel maxTextLength) chips
      \<and> hiddenCount (project chips (Some 0) maxTextLength) = int (length chips)
      \<and> int (length (visibleLabels (project chips (Some 0) maxTextLength)))
          + hiddenCount (project chips (Some 0) maxTextLength) = 2 * int (length chips))
   \<and> displayLabel (Some 0) chip = label chip
   \<and> visibleLabels (project chips maxChips (Some 0)) =
       map label (take (length (visibleLabels (project chips maxChips (Some 0)))) chips)"
proof -
  have d: "displayLabel (Some 0) = label"
    by (rule ext) (simp add: displayLabel_nonneg)
  show ?thesis
    by (simp add: project_labels project_hidden visibleChips_take exceeding_eq d min_def)
qed

theorem zero_limits_witness:
  "initialSample \<noteq> []
   \<and> length (visibleLabels (project initialSample (Some 0) (Some 10))) = 5
   \<and> hiddenCount (project initialSample (Some 0) (Some 10)) = 5
   \<and> visibleLabels (project initialSample (Some 3) (Some 0)) =
       [utf16 ''ReactJS'', utf16 ''TypeScript'', utf16 ''PerformanceOptimization'']"
proof -
  have h: "initialSample \<noteq> []"
    by (simp add: initialSample_def)
  have n: "length initialSample = 5"
    by (simp add: initialSample_def)
  have k: "length (visibleLabels (project initialSample (Some 3) (Some 0))) = 3"
    by code_simp
  have t: "map label (take 3 initialSample) =
      [utf16 ''ReactJS'', utf16 ''TypeScript'', utf16 ''PerformanceOptimization'']"
    by (simp add: initialSample_def)
  from zero_limits [of initialSample "Some 10" "\<lparr>label = utf16 ''A''\<rparr>" "Some 3"] h n k t
  show ?thesis by simp
qed

end
